theory Spec2Isabelle
  imports Main "HOL-Library.AList"
begin

section \<open>Strings, objects and regular expressions of the host language\<close>

text \<open>
  The program is the class \<open>Command\<close> of \<open>src/src/index.ts\<close>. A string of the program is a
  \<open>string\<close> here, one \<open>char\<close> per code unit, so the strings covered are those whose code
  units are below 256; the line separators U+2028 and U+2029, which the regular expressions
  treat like a line feed, are outside this range.

  An object used as a dictionary (\<open>RawArguments\<close>, \<open>CommandParameters\<close>, the parameters
  configuration, the command configurations) is the list of its own properties in creation
  order. A write \<open>o[k] = v\<close> is \<open>AList.update k v o\<close>: it replaces the value of an existing
  key in place and appends a new key. The objects that the program reads by key are written
  as \<open>{}\<close> literals, so a read \<open>o[k]\<close> of a key that the object does not own goes on to
  \<open>Object.prototype\<close>: it is \<open>get_property o k\<close>, which is the own value, the member that
  \<open>Object.prototype\<close> has under this name, or \<open>undefined\<close>. \<open>Object.keys\<close> and
  \<open>Object.entries\<close> list own properties only.

  The one member that a write does not shadow is the accessor \<open>__proto__\<close>. The program
  writes under this key only for a parameter named \<open>__proto__\<close>, and such a write is taken as
  a write of an own property here. The raw arguments never own this key, since the names of
  raw arguments begin with a letter or a digit; the properties of the parameters that do not
  start from an own raw argument exclude the name with \<open>plain_names\<close>.
\<close>

datatype 'a nullable = Null | Val 'a

datatype 'a property = Undefined | Own 'a | Inherited string

definition Object_prototype :: "string list" where
  "Object_prototype =
     [''constructor'', ''__defineGetter__'', ''__defineSetter__'', ''hasOwnProperty'',
      ''__lookupGetter__'', ''__lookupSetter__'', ''isPrototypeOf'', ''propertyIsEnumerable'',
      ''toString'', ''valueOf'', ''__proto__'', ''toLocaleString'']"

definition get_property :: "(string \<times> 'a) list \<Rightarrow> string \<Rightarrow> 'a property" where
  "get_property obj k =
     (case map_of obj k of
        Some v \<Rightarrow> Own v
      | None \<Rightarrow> if k \<in> set Object_prototype then Inherited k else Undefined)"

text \<open>
  The text of a member of \<open>Object.prototype\<close> in a template string: the members are native
  functions, \<open>constructor\<close> is the function \<open>Object\<close>, and \<open>__proto__\<close> reads as the object
  \<open>Object.prototype\<close> itself. As a number each of them is \<open>NaN\<close>.
\<close>

definition member_text :: "string \<Rightarrow> string" where
  "member_text k =
     (if k = ''__proto__'' then ''[object Object]''
      else ''function '' @ (if k = ''constructor'' then ''Object'' else k) @ ''() { [native code] }'')"

definition digit_value :: "char \<Rightarrow> int" where
  "digit_value c = of_char c - 48"

definition is_digit :: "char \<Rightarrow> bool" where
  "is_digit c = (48 \<le> (of_char c :: int) \<and> (of_char c :: int) \<le> 57)"

definition decimal_value :: "string \<Rightarrow> int" where
  "decimal_value s = foldl (\<lambda>n c. 10 * n + digit_value c) 0 s"

text \<open>
  An array index is a canonical numeric string with a value of at most \<open>2^32 - 2\<close>.
  \<open>Object.keys\<close> lists the array indices first, in ascending numeric order, and then the
  other keys in creation order.
\<close>

definition is_array_index :: "string \<Rightarrow> bool" where
  "is_array_index s =
     (s \<noteq> [] \<and> list_all is_digit s \<and> (hd s = CHR ''0'' \<longrightarrow> s = ''0'')
      \<and> decimal_value s \<le> 4294967294)"

definition Object_keys :: "(string \<times> 'v) list \<Rightarrow> string list" where
  "Object_keys obj =
     sort_key decimal_value (filter is_array_index (map fst obj))
     @ filter (\<lambda>k. \<not> is_array_index k) (map fst obj)"

text \<open>The character classes \<open>[a-zA-Z]\<close>, \<open>[a-zA-Z0-9]\<close> and \<open>[a-zA-Z0-9_-]\<close>.\<close>

definition is_letter :: "char \<Rightarrow> bool" where
  "is_letter c =
     ((65 \<le> (of_char c :: int) \<and> (of_char c :: int) \<le> 90)
      \<or> (97 \<le> (of_char c :: int) \<and> (of_char c :: int) \<le> 122))"

definition is_alnum :: "char \<Rightarrow> bool" where
  "is_alnum c = (is_letter c \<or> is_digit c)"

definition is_name_char :: "char \<Rightarrow> bool" where
  "is_name_char c = (is_alnum c \<or> c = CHR ''_'' \<or> c = CHR ''-'')"

text \<open>The dot of a regular expression matches every character but a line terminator.\<close>

definition is_line_terminator :: "char \<Rightarrow> bool" where
  "is_line_terminator c = (c = CHR 0x0A \<or> c = CHR 0x0D)"

text \<open>
  \<open>COMMAND_NAME_REGEXP = /^[a-zA-Z](?:[a-zA-Z0-9_-]*)?$/\<close>; only whether it matches is used.
\<close>

definition COMMAND_NAME_REGEXP :: "string \<Rightarrow> bool" where
  "COMMAND_NAME_REGEXP s =
     (case s of [] \<Rightarrow> False | c # cs \<Rightarrow> is_letter c \<and> list_all is_name_char cs)"

text \<open>
  \<open>COMMAND_ARGUMENT_NAME_REGEXP = /^--([a-zA-Z0-9](?:[a-zA-Z0-9_-]*)?)(?:=(.+))?$/\<close>.
  A match gives the two groups, the second one \<open>None\<close> when it did not take part. The name
  group is greedy; giving characters back never helps, since the character after a shorter
  name is a name character, which is neither \<open>=\<close> nor the end of the string.
\<close>

definition COMMAND_ARGUMENT_NAME_REGEXP :: "string \<Rightarrow> (string \<times> string option) option" where
  "COMMAND_ARGUMENT_NAME_REGEXP s =
     (case s of
        d1 # d2 # c # cs \<Rightarrow>
          if d1 = CHR ''-'' \<and> d2 = CHR ''-'' \<and> is_alnum c then
            (case dropWhile is_name_char cs of
               [] \<Rightarrow> Some (c # takeWhile is_name_char cs, None)
             | e # v \<Rightarrow>
                 if e = CHR ''='' \<and> v \<noteq> [] \<and> \<not> list_ex is_line_terminator v
                 then Some (c # takeWhile is_name_char cs, Some v)
                 else None)
          else None
      | _ \<Rightarrow> None)"

text \<open>
  \<open>COMMAND_ARGUMENT_SHORTHAND_REGEXP = /^-([a-zA-Z0-9](?:[a-zA-Z0-9_-]*)?)$/\<close>, with its
  one group.
\<close>

definition COMMAND_ARGUMENT_SHORTHAND_REGEXP :: "string \<Rightarrow> string option" where
  "COMMAND_ARGUMENT_SHORTHAND_REGEXP s =
     (case s of
        d # c # cs \<Rightarrow>
          if d = CHR ''-'' \<and> is_alnum c \<and> list_all is_name_char cs then Some (c # cs) else None
      | _ \<Rightarrow> None)"

text \<open>
  \<open>String.prototype.toLowerCase\<close> on code units below 256: the letters \<open>A\<close> to \<open>Z\<close> and the
  Latin-1 capitals (U+00C0 to U+00DE without the multiplication sign U+00D7) move up by 32.
\<close>

definition toLowerCase_char :: "char \<Rightarrow> char" where
  "toLowerCase_char c =
     (let n = (of_char c :: int) in
      if (65 \<le> n \<and> n \<le> 90) \<or> (192 \<le> n \<and> n \<le> 222 \<and> n \<noteq> 215) then char_of (n + 32) else c)"

definition toLowerCase :: "string \<Rightarrow> string" where
  "toLowerCase s = map toLowerCase_char s"

fun join :: "string \<Rightarrow> string list \<Rightarrow> string" where
  "join sep [] = []"
| "join sep [x] = x"
| "join sep (x # y # ys) = x @ sep @ join sep (y # ys)"

section \<open>Data model\<close>

text \<open>
  The values of a parameter. \<open>MemberValue k\<close> is the member \<open>k\<close> of \<open>Object.prototype\<close>: no
  value of the type \<open>CommandParameter\<close>, but what the program stores for a string parameter
  when the read of the raw argument ends at \<open>Object.prototype\<close>.
\<close>

datatype 'n CommandParameter =
  BooleanValue bool | NumberValue 'n | StringValue string | MemberValue string

type_synonym 'n CommandParameters = "(string \<times> 'n CommandParameter nullable) list"

datatype ParameterType = TNumber | TString | TBoolean

text \<open>
  An optional property is an \<open>option\<close>: \<open>defaultValue = None\<close> is the property left out (or
  \<open>undefined\<close>), \<open>Some Null\<close> is \<open>defaultValue: null\<close>.
\<close>

record 'n AbstractParameter =
  type :: ParameterType
  defaultValue :: "'n CommandParameter nullable option"
  shorthand :: "string option"
  description :: "string option"

text \<open>
  \<open>Parameters<CommandParameters>\<close>: the entries of the parameters configuration in the order
  \<open>Object.entries\<close> lists them.
\<close>

type_synonym 'n Parameters = "(string \<times> 'n AbstractParameter) list"

type_synonym RawArguments = "(string \<times> string nullable) list"

text \<open>
  Every \<open>throw\<close> of the class, with the values its message interpolates, and the two type
  errors that the host language raises in it: the call of a method that the value does not
  have, and \<open>Object.entries\<close> of \<open>undefined\<close>.
\<close>

datatype error =
    NoCommandName
  | UnknownCommand string
  | InvalidArgument string
  | InvalidBooleanValue string string
  | InvalidNumericValue string string
  | MissingArguments "string list"
  | UnknownArguments "string list"
  | NotAFunction string
  | CannotConvertUndefined

fun message :: "error \<Rightarrow> string" where
  "message NoCommandName = ''No command name provided.''"
| "message (UnknownCommand commandName) = ''Unknown command: '' @ commandName"
| "message (InvalidArgument commandLineArg) = ''Invalid argument: '' @ commandLineArg"
| "message (InvalidBooleanValue parameterName rawArgument) =
     ''Invalid boolean value provided for parameter '' @ parameterName @ '': '' @ rawArgument"
| "message (InvalidNumericValue parameterName rawArgument) =
     ''Invalid numeric value provided for parameter '' @ parameterName @ '': '' @ rawArgument"
| "message (MissingArguments names) = ''Missing arguments: '' @ join '', '' names"
| "message (UnknownArguments names) = ''Unknown arguments: '' @ join '', '' names"
| "message (NotAFunction expression) = expression @ '' is not a function''"
| "message CannotConvertUndefined = ''Cannot convert undefined or null to object''"

section \<open>Command name and command line arguments\<close>

text \<open>\<open>argv[2]\<close> is \<open>undefined\<close> when the array has at most two elements.\<close>

definition getCommandName :: "string list \<Rightarrow> error + string" where
  "getCommandName argv =
     (if 2 < length argv \<and> COMMAND_NAME_REGEXP (argv ! 2) then Inr (argv ! 2)
      else if \<not> 2 < length argv
              \<or> COMMAND_ARGUMENT_NAME_REGEXP (argv ! 2) \<noteq> None
              \<or> COMMAND_ARGUMENT_SHORTHAND_REGEXP (argv ! 2) \<noteq> None
      then Inr ''default''
      else Inl NoCommandName)"

definition getCommandLineArguments :: "string list \<Rightarrow> string \<Rightarrow> string list" where
  "getCommandLineArguments argv commandName =
     (if commandName = ''default'' then drop 2 argv else drop 3 argv)"

section \<open>Raw arguments\<close>

text \<open>
  \<open>Array.prototype.reduce\<close> with an initial value, for a callback that may throw: the
  callback gets the accumulator, the element and its index, and a throw ends the loop.
\<close>

fun reduce :: "('s \<Rightarrow> 'a \<Rightarrow> nat \<Rightarrow> error + 's) \<Rightarrow> 'a list \<Rightarrow> nat \<Rightarrow> 's \<Rightarrow> error + 's" where
  "reduce f [] index acc = Inr acc"
| "reduce f (x # xs) index acc =
     (case f acc x index of Inl e \<Rightarrow> Inl e | Inr acc' \<Rightarrow> reduce f xs (Suc index) acc')"

text \<open>
  \<open>commandLineArg.match(COMMAND_ARGUMENT_NAME_REGEXP) ??
  commandLineArg.match(COMMAND_ARGUMENT_SHORTHAND_REGEXP)\<close>: the pair is \<open>matches[1]\<close> and
  \<open>matches[2]\<close>; the match of the shorthand expression has no third element.
\<close>

definition matches :: "string \<Rightarrow> (string \<times> string option) option" where
  "matches commandLineArg =
     (case COMMAND_ARGUMENT_NAME_REGEXP commandLineArg of
        Some m \<Rightarrow> Some m
      | None \<Rightarrow>
          (case COMMAND_ARGUMENT_SHORTHAND_REGEXP commandLineArg of
             Some name \<Rightarrow> Some (name, None)
           | None \<Rightarrow> None))"

text \<open>
  The callback of the \<open>reduce\<close> in \<open>getRawArguments\<close>. The variable \<open>skipNextArg\<close>, which the
  callback shares between its calls, travels with the accumulator.
\<close>

definition getRawArguments_callback ::
  "string list \<Rightarrow> RawArguments \<times> bool \<Rightarrow> string \<Rightarrow> nat \<Rightarrow> error + RawArguments \<times> bool" where
  "getRawArguments_callback commandLineArguments acc commandLineArg index =
     (case acc of (result, skipNextArg) \<Rightarrow>
        if skipNextArg then Inr (result, False)
        else
          (case matches commandLineArg of
             None \<Rightarrow> Inl (InvalidArgument commandLineArg)
           | Some (name, Some v) \<Rightarrow> Inr (AList.update name (Val v) result, False)
           | Some (name, None) \<Rightarrow>
               if index + 1 < length commandLineArguments
                  \<and> COMMAND_ARGUMENT_NAME_REGEXP (commandLineArguments ! (index + 1)) = None
                  \<and> COMMAND_ARGUMENT_SHORTHAND_REGEXP (commandLineArguments ! (index + 1)) = None
               then Inr (AList.update name (Val (commandLineArguments ! (index + 1))) result, True)
               else Inr (AList.update name Null result, False)))"

definition getRawArguments :: "string list \<Rightarrow> error + RawArguments" where
  "getRawArguments commandLineArguments =
     (case reduce (getRawArguments_callback commandLineArguments) commandLineArguments 0 ([], False) of
        Inl e \<Rightarrow> Inl e
      | Inr (rawArguments, skipNextArg) \<Rightarrow> Inr rawArguments)"

section \<open>Command parameters\<close>

text \<open>
  \<open>Number(rawArgument)\<close> yields a floating point number and is not part of the program: the
  functions below take it as the parameter \<open>Number\<close>, over any type \<open>'n\<close> of numbers, with
  \<open>None\<close> for a result that \<open>Number.isNaN\<close> accepts.

  The callback of the \<open>filter\<close> in \<open>getCommandParameters\<close> writes to the object
  \<open>commandParameters\<close> of the enclosing function, so it takes the object and returns it with
  the value of the test. Both \<open>rawArguments[parameterName]\<close> and
  \<open>commandParameters[parameterName]\<close> are reads of \<open>{}\<close> objects. A raw argument read from
  \<open>Object.prototype\<close> is neither \<open>undefined\<close> nor \<open>null\<close> and goes through the \<open>switch\<close>: it
  has no method \<open>toLowerCase\<close>, it is \<open>NaN\<close> as a number, and it is stored as it is for a
  string. The statement under "Handling a special case for boolean flags with no value" is
  the comparison \<open>commandParameters[parameterName] === true\<close>, whose value is dropped: it is
  the binding of \<open>compared\<close>.
\<close>

definition getCommandParameters_callback ::
  "(string \<Rightarrow> 'n option) \<Rightarrow> RawArguments \<Rightarrow> 'n CommandParameters
     \<Rightarrow> string \<times> 'n AbstractParameter \<Rightarrow> error + 'n CommandParameters \<times> bool" where
  "getCommandParameters_callback Number rawArguments commandParameters entry =
     (case entry of (parameterName, parameter) \<Rightarrow>
        let rawArgument = get_property rawArguments parameterName;
            seeded =
              (if type parameter = TBoolean
               then AList.update parameterName (Val (BooleanValue False)) commandParameters
               else commandParameters);
            defaulted =
              (case defaultValue parameter of
                 Some d \<Rightarrow> AList.update parameterName d seeded
               | None \<Rightarrow> seeded);
            converted =
              (case rawArgument of
                 Own (Val raw) \<Rightarrow>
                   (case type parameter of
                      TBoolean \<Rightarrow>
                        if toLowerCase raw \<in> set [''true'', ''yes'', ''y'', ''on'', ''1'']
                        then Inr (AList.update parameterName (Val (BooleanValue True)) defaulted)
                        else if toLowerCase raw \<in> set [''false'', ''no'', ''n'', ''off'', ''0'']
                        then Inr (AList.update parameterName (Val (BooleanValue False)) defaulted)
                        else Inl (InvalidBooleanValue parameterName raw)
                    | TNumber \<Rightarrow>
                        (case Number raw of
                           None \<Rightarrow> Inl (InvalidNumericValue parameterName raw)
                         | Some numberValue \<Rightarrow>
                             Inr (AList.update parameterName (Val (NumberValue numberValue)) defaulted))
                    | TString \<Rightarrow>
                        Inr (AList.update parameterName (Val (StringValue raw)) defaulted))
               | Inherited k \<Rightarrow>
                   (case type parameter of
                      TBoolean \<Rightarrow> Inl (NotAFunction ''rawArgument.toLowerCase'')
                    | TNumber \<Rightarrow> Inl (InvalidNumericValue parameterName (member_text k))
                    | TString \<Rightarrow>
                        Inr (AList.update parameterName (Val (MemberValue k)) defaulted))
               | _ \<Rightarrow> Inr defaulted)
        in
          (case converted of
             Inl e \<Rightarrow> Inl e
           | Inr assigned \<Rightarrow>
               let flagged =
                     (if rawArgument = Own Null \<and> type parameter = TBoolean
                      then
                        (let compared =
                               (get_property assigned parameterName = Own (Val (BooleanValue True)))
                         in assigned)
                      else assigned)
               in Inr (flagged, get_property flagged parameterName = Undefined)))"

text \<open>
  \<open>Array.prototype.filter\<close> for a callback that may throw and that updates a captured
  object: the object goes through the calls in order, a throw ends the loop.
\<close>

fun filter_entries ::
  "('s \<Rightarrow> 'a \<Rightarrow> error + 's \<times> bool) \<Rightarrow> 'a list \<Rightarrow> 's \<Rightarrow> error + 's \<times> 'a list" where
  "filter_entries f [] s = Inr (s, [])"
| "filter_entries f (x # xs) s =
     (case f s x of
        Inl e \<Rightarrow> Inl e
      | Inr (s', keep) \<Rightarrow>
          (case filter_entries f xs s' of
             Inl e \<Rightarrow> Inl e
           | Inr (s'', kept) \<Rightarrow> Inr (s'', if keep then x # kept else kept)))"

definition getCommandParameters ::
  "(string \<Rightarrow> 'n option) \<Rightarrow> 'n Parameters \<Rightarrow> RawArguments \<Rightarrow> error + 'n CommandParameters" where
  "getCommandParameters Number commandParametersConfig rawArguments =
     (case filter_entries (getCommandParameters_callback Number rawArguments)
             commandParametersConfig [] of
        Inl e \<Rightarrow> Inl e
      | Inr (commandParameters, missingArguments) \<Rightarrow>
          let unknownArguments =
                filter (\<lambda>argName. argName \<notin> set (map fst commandParametersConfig))
                  (Object_keys rawArguments)
          in
            if length missingArguments > 0
            then Inl (MissingArguments (map fst missingArguments))
            else if length unknownArguments > 0
            then Inl (UnknownArguments unknownArguments)
            else Inr commandParameters)"

section \<open>Command executable\<close>

text \<open>
  A command handling function is a function of the host language: besides returning a result
  or throwing (\<open>Inl\<close> is the value thrown) it may act on the world around the program, a
  state of any type \<open>'w\<close>, which it takes and returns. \<open>command.bind(null,
  commandParameters)\<close> is the pair of the function and its argument, and calling the bound
  function applies one to the other in the world of the call.
\<close>

type_synonym ('n, 'r, 'x, 'w) CommandFunction = "'n CommandParameters \<Rightarrow> 'w \<Rightarrow> ('x + 'r) \<times> 'w"

text \<open>
  The field \<open>description\<close> of a command configuration is \<open>commandDescription\<close> here: the
  name \<open>description\<close> is the field of a parameter.
\<close>

record ('n, 'r, 'x, 'w) AbstractCommandConfig =
  parameters :: "'n Parameters"
  command :: "('n, 'r, 'x, 'w) CommandFunction"
  commandDescription :: "string option"

type_synonym ('n, 'r, 'x, 'w) CommandConfigs =
  "(string \<times> ('n, 'r, 'x, 'w) AbstractCommandConfig) list"

datatype ('n, 'r, 'x, 'w) CommandExecutable =
  Bind "('n, 'r, 'x, 'w) CommandFunction" "'n CommandParameters"

fun call :: "('n, 'r, 'x, 'w) CommandExecutable \<Rightarrow> 'w \<Rightarrow> ('x + 'r) \<times> 'w" where
  "call (Bind f commandParameters) w = f commandParameters w"

text \<open>
  \<open>this.commandConfigs[commandName]\<close> is a read by key as well: for a name that the
  configurations do not own and \<open>Object.prototype\<close> has, \<open>getCommandConfig\<close> returns the
  member, which is not \<open>undefined\<close>.
\<close>

datatype 'c found = Configured 'c | Member string

definition getCommandConfig ::
  "('n, 'r, 'x, 'w) CommandConfigs \<Rightarrow> string
     \<Rightarrow> error + ('n, 'r, 'x, 'w) AbstractCommandConfig found" where
  "getCommandConfig commandConfigs commandName =
     (case get_property commandConfigs commandName of
        Undefined \<Rightarrow> Inl (UnknownCommand commandName)
      | Own commandConfig \<Rightarrow> Inr (Configured commandConfig)
      | Inherited k \<Rightarrow> Inr (Member k))"

definition getUsageNotes :: string where
  "getUsageNotes = []"

text \<open>
  The methods called by \<open>getCommandExecutable\<close> do not act on the world, and neither does
  \<open>bind\<close>: the world goes through the statements as it is. A member of \<open>Object.prototype\<close>
  in the place of the command configuration has no property \<open>parameters\<close>, and
  \<open>getCommandParameters\<close> throws at \<open>Object.entries(undefined)\<close>, its first read of the
  configuration.
\<close>

definition getCommandExecutable ::
  "(string \<Rightarrow> 'n option) \<Rightarrow> ('n, 'r, 'x, 'w) CommandConfigs \<Rightarrow> string list \<Rightarrow> 'w
     \<Rightarrow> (error + ('n, 'r, 'x, 'w) CommandExecutable) \<times> 'w" where
  "getCommandExecutable Number commandConfigs argv w =
     (case getCommandName argv of
        Inl e \<Rightarrow> (Inl e, w)
      | Inr commandName \<Rightarrow>
          let commandLineArguments = getCommandLineArguments argv commandName in
          (case getCommandConfig commandConfigs commandName of
             Inl e \<Rightarrow> (Inl e, w)
           | Inr commandConfig \<Rightarrow>
               (case getRawArguments commandLineArguments of
                  Inl e \<Rightarrow> (Inl e, w)
                | Inr rawArguments \<Rightarrow>
                    (case commandConfig of
                       Member k \<Rightarrow> (Inl CannotConvertUndefined, w)
                     | Configured c \<Rightarrow>
                         (case getCommandParameters Number (parameters c) rawArguments of
                            Inl e \<Rightarrow> (Inl e, w)
                          | Inr commandParameters \<Rightarrow>
                              (Inr (Bind (command c) commandParameters), w))))))"

text \<open>
  \<open>run\<close>, with \<open>process.argv\<close> as an argument: what it returns, or the exit status with
  the lines written to the console before it, and the world it leaves.
\<close>

datatype 'x console_line = Text string | Thrown 'x

datatype ('r, 'x) run_result = Returns 'r | Exits int "'x console_line list"

definition run ::
  "(string \<Rightarrow> 'n option) \<Rightarrow> ('n, 'r, 'x, 'w) CommandConfigs \<Rightarrow> string list \<Rightarrow> 'w
     \<Rightarrow> ('r, 'x) run_result \<times> 'w" where
  "run Number commandConfigs argv w =
     (case getCommandExecutable Number commandConfigs argv w of
        (Inl e, w') \<Rightarrow> (Exits 1 [Text (message e), Text getUsageNotes], w')
      | (Inr commandExecutable, w') \<Rightarrow>
          (case call commandExecutable w' of
             (Inl e, w'') \<Rightarrow> (Exits 1 [Thrown e], w'')
           | (Inr r, w'') \<Rightarrow> (Returns r, w'')))"

section \<open>Notions used to state the properties\<close>

text \<open>A token has the shape of an argument if one of the two argument expressions matches it.\<close>

definition is_argument :: "string \<Rightarrow> bool" where
  "is_argument t =
     (COMMAND_ARGUMENT_NAME_REGEXP t \<noteq> None \<or> COMMAND_ARGUMENT_SHORTHAND_REGEXP t \<noteq> None)"

text \<open>
  The loop of \<open>getRawArguments\<close> by recursion on the tokens still to be read, started at a
  token that is not skipped: a flag without \<open>=value\<close> in front of a token that is no argument
  takes both tokens at once.
\<close>

fun tokens_from :: "string list \<Rightarrow> RawArguments \<Rightarrow> error + RawArguments" where
  "tokens_from [] result = Inr result"
| "tokens_from [t] result =
     (case matches t of
        None \<Rightarrow> Inl (InvalidArgument t)
      | Some (name, Some v) \<Rightarrow> Inr (AList.update name (Val v) result)
      | Some (name, None) \<Rightarrow> Inr (AList.update name Null result))"
| "tokens_from (t # s # rest) result =
     (case matches t of
        None \<Rightarrow> Inl (InvalidArgument t)
      | Some (name, Some v) \<Rightarrow> tokens_from (s # rest) (AList.update name (Val v) result)
      | Some (name, None) \<Rightarrow>
          if \<not> is_argument s then tokens_from rest (AList.update name (Val s) result)
          else tokens_from (s # rest) (AList.update name Null result))"

text \<open>
  The tokens that are not consumed as the value of the argument in front of them: a token is
  consumed when the token before it is not consumed itself, is a flag without \<open>=value\<close>,
  and the token is no argument.
\<close>

fun scanned :: "string list \<Rightarrow> string list" where
  "scanned [] = []"
| "scanned [t] = [t]"
| "scanned (t # s # rest) =
     (case matches t of
        Some (name, None) \<Rightarrow> if \<not> is_argument s then t # scanned rest else t # scanned (s # rest)
      | _ \<Rightarrow> t # scanned (s # rest))"

text \<open>
  The bindings of names that the tokens make, in the order of the tokens: \<open>--name=value\<close>
  binds the name to the value, a flag without \<open>=value\<close> binds its name to the token it
  consumes or to \<open>null\<close>.
\<close>

fun bindings :: "string list \<Rightarrow> (string \<times> string nullable) list" where
  "bindings [] = []"
| "bindings [t] =
     (case matches t of
        None \<Rightarrow> []
      | Some (name, Some v) \<Rightarrow> [(name, Val v)]
      | Some (name, None) \<Rightarrow> [(name, Null)])"
| "bindings (t # s # rest) =
     (case matches t of
        None \<Rightarrow> bindings (s # rest)
      | Some (name, Some v) \<Rightarrow> (name, Val v) # bindings (s # rest)
      | Some (name, None) \<Rightarrow>
          if \<not> is_argument s then (name, Val s) # bindings rest
          else (name, Null) # bindings (s # rest))"

text \<open>
  What the callback of \<open>getCommandParameters\<close> does for one entry: the error it throws, if
  the raw argument is a string or a member of \<open>Object.prototype\<close> that does not convert, and
  else the value it writes for the parameter, \<open>None\<close> when it writes nothing.
\<close>

definition conversion_error ::
  "(string \<Rightarrow> 'n option) \<Rightarrow> RawArguments \<Rightarrow> string \<times> 'n AbstractParameter \<Rightarrow> error option" where
  "conversion_error Number rawArguments entry =
     (case entry of (parameterName, parameter) \<Rightarrow>
        (case get_property rawArguments parameterName of
           Own (Val raw) \<Rightarrow>
             (case type parameter of
                TBoolean \<Rightarrow>
                  if toLowerCase raw \<in> set [''true'', ''yes'', ''y'', ''on'', ''1'']
                     \<or> toLowerCase raw \<in> set [''false'', ''no'', ''n'', ''off'', ''0'']
                  then None
                  else Some (InvalidBooleanValue parameterName raw)
              | TNumber \<Rightarrow>
                  (case Number raw of
                     None \<Rightarrow> Some (InvalidNumericValue parameterName raw)
                   | Some numberValue \<Rightarrow> None)
              | TString \<Rightarrow> None)
         | Inherited k \<Rightarrow>
             (case type parameter of
                TBoolean \<Rightarrow> Some (NotAFunction ''rawArgument.toLowerCase'')
              | TNumber \<Rightarrow> Some (InvalidNumericValue parameterName (member_text k))
              | TString \<Rightarrow> None)
         | _ \<Rightarrow> None))"

definition resolved_value ::
  "(string \<Rightarrow> 'n option) \<Rightarrow> RawArguments \<Rightarrow> string \<times> 'n AbstractParameter
     \<Rightarrow> 'n CommandParameter nullable option" where
  "resolved_value Number rawArguments entry =
     (case entry of (parameterName, parameter) \<Rightarrow>
        (case get_property rawArguments parameterName of
           Own (Val raw) \<Rightarrow>
             (case type parameter of
                TBoolean \<Rightarrow>
                  Some (Val (BooleanValue
                    (toLowerCase raw \<in> set [''true'', ''yes'', ''y'', ''on'', ''1''])))
              | TNumber \<Rightarrow> map_option (\<lambda>numberValue. Val (NumberValue numberValue)) (Number raw)
              | TString \<Rightarrow> Some (Val (StringValue raw)))
         | Inherited k \<Rightarrow> Some (Val (MemberValue k))
         | _ \<Rightarrow>
             (case defaultValue parameter of
                Some d \<Rightarrow> Some d
              | None \<Rightarrow> if type parameter = TBoolean then Some (Val (BooleanValue False)) else None)))"

text \<open>
  A declared parameter resolves to no value when it is no boolean, declares no default and
  the raw arguments hold no string for its name.
\<close>

definition resolves_to_no_value :: "RawArguments \<Rightarrow> string \<times> 'n AbstractParameter \<Rightarrow> bool" where
  "resolves_to_no_value rawArguments entry =
     (case entry of (parameterName, parameter) \<Rightarrow>
        type parameter \<noteq> TBoolean \<and> defaultValue parameter = None
        \<and> (case map_of rawArguments parameterName of Some (Val raw) \<Rightarrow> False | _ \<Rightarrow> True))"

text \<open>The keys of the raw arguments that are no declared parameter names.\<close>

definition unknown_names :: "'n Parameters \<Rightarrow> RawArguments \<Rightarrow> string list" where
  "unknown_names commandParametersConfig rawArguments =
     filter (\<lambda>argName. argName \<notin> fst ` set commandParametersConfig) (Object_keys rawArguments)"

text \<open>
  The parameter \<open>Number\<close> for the evaluation of examples: the value of a string of decimal
  digits, and \<open>NaN\<close> for the other strings of the examples, which hold no number.
\<close>

definition decimal_Number :: "string \<Rightarrow> int option" where
  "decimal_Number s = (if s \<noteq> [] \<and> list_all is_digit s then Some (decimal_value s) else None)"

definition a_parameter :: "ParameterType \<Rightarrow> int AbstractParameter" where
  "a_parameter t = \<lparr>type = t, defaultValue = None, shorthand = None, description = None\<rparr>"

text \<open>
  A registry for the examples. The world is the list of the calls made so far: each function
  adds its name to it and returns the number of its parameters.
\<close>

definition a_registry :: "(int, nat, unit, string list) CommandConfigs" where
  "a_registry =
     [(''default'',
       \<lparr>parameters = [(''count'', a_parameter TNumber)],
        command = (\<lambda>commandParameters w. (Inr (length commandParameters), w @ [''default''])),
        commandDescription = None\<rparr>),
      (''greet'',
       \<lparr>parameters = [(''name'', a_parameter TString), (''loud'', a_parameter TBoolean)],
        command = (\<lambda>commandParameters w. (Inr (length commandParameters), w @ [''greet''])),
        commandDescription = None\<rparr>)]"

text \<open>
  The parameter names that \<open>Object.prototype\<close> does not define: for them a read by key is a
  read of an own property.
\<close>

definition plain_names :: "'n Parameters \<Rightarrow> bool" where
  "plain_names commandParametersConfig =
     list_all (\<lambda>parameterName. parameterName \<notin> set Object_prototype)
       (map fst commandParametersConfig)"

text \<open>The errors of a conversion of a raw argument.\<close>

fun is_conversion_error :: "error \<Rightarrow> bool" where
  "is_conversion_error (InvalidBooleanValue parameterName rawArgument) = True"
| "is_conversion_error (InvalidNumericValue parameterName rawArgument) = True"
| "is_conversion_error (NotAFunction expression) = True"
| "is_conversion_error e = False"

text \<open>
  A raw string is recognised as a boolean when the callback, run for a boolean parameter whose
  raw argument is this string, does not throw.
\<close>

definition recognised_boolean :: "string \<Rightarrow> bool" where
  "recognised_boolean raw =
     (case getCommandParameters_callback decimal_Number [(''flag'', Val raw)] []
             (''flag'', a_parameter TBoolean) of
        Inl e \<Rightarrow> False
      | Inr assigned \<Rightarrow> True)"

section \<open>The loop of the raw arguments\<close>

lemma matches_None_iff: "matches t = None \<longleftrightarrow> \<not> is_argument t"
  by (auto simp: matches_def is_argument_def split: option.splits)

lemma tokens_from_Cons:
  "tokens_from (t # rest) r =
     (case matches t of
        None \<Rightarrow> Inl (InvalidArgument t)
      | Some (name, Some v) \<Rightarrow> tokens_from rest (AList.update name (Val v) r)
      | Some (name, None) \<Rightarrow>
          (case rest of
             [] \<Rightarrow> Inr (AList.update name Null r)
           | s # rest' \<Rightarrow>
               if \<not> is_argument s then tokens_from rest' (AList.update name (Val s) r)
               else tokens_from rest (AList.update name Null r)))"
  by (cases rest) (auto split: option.splits)

lemma tokens_from_keep:
  "matches t = Some (name, None) \<Longrightarrow> \<not> (rest \<noteq> [] \<and> \<not> is_argument (hd rest)) \<Longrightarrow>
   tokens_from (t # rest) r = tokens_from rest (AList.update name Null r)"
  by (cases rest) auto

lemma callback_skip:
  "getRawArguments_callback ts (r, True) t i = Inr (r, False)"
  by (simp add: getRawArguments_callback_def)

lemma callback_scan:
  "getRawArguments_callback ts (r, False) t i =
     (case matches t of
        None \<Rightarrow> Inl (InvalidArgument t)
      | Some (name, Some v) \<Rightarrow> Inr (AList.update name (Val v) r, False)
      | Some (name, None) \<Rightarrow>
          if Suc i < length ts \<and> \<not> is_argument (ts ! Suc i)
          then Inr (AList.update name (Val (ts ! Suc i)) r, True)
          else Inr (AList.update name Null r, False))"
  by (auto simp: getRawArguments_callback_def is_argument_def split: option.splits)

lemma reduce_tokens_from:
  "i \<le> length ts \<Longrightarrow>
   reduce (getRawArguments_callback ts) (drop i ts) i (r, False) =
     (case tokens_from (drop i ts) r of Inl e \<Rightarrow> Inl e | Inr r' \<Rightarrow> Inr (r', False))"
proof (induction "length ts - i" arbitrary: i r rule: less_induct)
  case less
  show ?case
  proof (cases "i = length ts")
    case True
    then show ?thesis by simp
  next
    case False
    with less.prems have lt: "i < length ts" by simp
    then have d: "drop i ts = ts ! i # drop (Suc i) ts"
      by (simp add: Cons_nth_drop_Suc)
    have ih1: "reduce (getRawArguments_callback ts) (drop (Suc i) ts) (Suc i) (r', False) =
        (case tokens_from (drop (Suc i) ts) r' of Inl e \<Rightarrow> Inl e | Inr r'' \<Rightarrow> Inr (r'', False))" for r'
      using less.hyps [of "Suc i" r'] lt by simp
    show ?thesis
    proof (cases "matches (ts ! i)")
      case None
      then show ?thesis by (simp add: d callback_scan tokens_from_Cons)
    next
      case (Some m)
      obtain name val where m: "m = (name, val)" by (cases m)
      show ?thesis
      proof (cases val)
        case (Some v)
        then show ?thesis using \<open>matches (ts ! i) = Some m\<close> m ih1
          by (simp add: d callback_scan tokens_from_Cons)
      next
        case None
        show ?thesis
        proof (cases "Suc i < length ts \<and> \<not> is_argument (ts ! Suc i)")
          case True
          then have d2: "drop (Suc i) ts = ts ! Suc i # drop (Suc (Suc i)) ts"
            by (simp add: Cons_nth_drop_Suc)
          have ih2: "reduce (getRawArguments_callback ts) (drop (Suc (Suc i)) ts) (Suc (Suc i)) (r', False) =
            (case tokens_from (drop (Suc (Suc i)) ts) r' of Inl e \<Rightarrow> Inl e | Inr r'' \<Rightarrow> Inr (r'', False))" for r'
          proof -
            have "length ts - Suc (Suc i) < length ts - i" using lt by arith
            moreover have "Suc (Suc i) \<le> length ts" using True by simp
            ultimately show ?thesis by (rule less.hyps)
          qed
          show ?thesis using \<open>matches (ts ! i) = Some m\<close> m None True ih2
            by (simp add: d d2 callback_scan callback_skip tokens_from_Cons)
        next
          case False
          then have "\<not> (drop (Suc i) ts \<noteq> [] \<and> \<not> is_argument (hd (drop (Suc i) ts)))"
            by (cases "Suc i < length ts") (simp_all add: hd_drop_conv_nth)
          then have "tokens_from (ts ! i # drop (Suc i) ts) r =
              tokens_from (drop (Suc i) ts) (AList.update name Null r)"
            using \<open>matches (ts ! i) = Some m\<close> m None by (rule_tac tokens_from_keep) auto
          then show ?thesis using \<open>matches (ts ! i) = Some m\<close> m None False
            by (auto simp add: d callback_scan ih1)
        qed
      qed
    qed
  qed
qed

lemma getRawArguments_tokens_from: "getRawArguments ts = tokens_from ts []"
  using reduce_tokens_from [of 0 ts "[]"]
  by (simp add: getRawArguments_def split: sum.splits)


lemma scanned_Cons:
  "scanned (t # rest) =
     t # scanned (case matches t of
                    Some (name, None) \<Rightarrow>
                      (case rest of [] \<Rightarrow> [] | s # rest' \<Rightarrow> if \<not> is_argument s then rest' else rest)
                  | _ \<Rightarrow> rest)"
  by (cases rest) (auto split: option.splits)

lemma tokens_from_error:
  "tokens_from ts r = Inl e \<longleftrightarrow>
     (\<exists>t. find (\<lambda>t. \<not> is_argument t) (scanned ts) = Some t \<and> e = InvalidArgument t)"
  by (induction ts r rule: tokens_from.induct)
     (auto simp: matches_None_iff [symmetric] split: option.splits)

lemma tokens_from_bindings:
  "tokens_from ts r = Inr r' \<Longrightarrow>
   r' = foldl (\<lambda>acc (name, v). AList.update name v acc) r (bindings ts)"
  by (induction ts r rule: tokens_from.induct) (auto split: option.splits if_splits)

lemma map_of_foldl_update:
  "map_of (foldl (\<lambda>acc (name, v). AList.update name v acc) r bs) = map_of r ++ map_of (rev bs)"
  by (induction bs arbitrary: r) (auto simp: AList.update_conv' fun_eq_iff map_add_def split: option.splits)

lemma distinct_foldl_update:
  "distinct (map fst r) \<Longrightarrow>
   distinct (map fst (foldl (\<lambda>acc (name, v). AList.update name v acc) r bs))"
  by (induction bs arbitrary: r) (auto simp: AList.distinct_update)

lemma last_binding:
  "name \<notin> fst ` set later \<Longrightarrow> map_of (rev (earlier @ (name, v) # later)) name = Some v"
  by (simp add: map_add_def map_of_eq_None_iff [THEN iffD2] split: option.splits)

lemma tokens_from_succeeds:
  "list_all is_argument (scanned ts) \<Longrightarrow> \<exists>r'. tokens_from ts r = Inr r'"
proof (cases "tokens_from ts r")
  case (Inl e)
  then obtain t where "find (\<lambda>t. \<not> is_argument t) (scanned ts) = Some t"
    by (auto simp: tokens_from_error)
  then have "t \<in> set (scanned ts)" and "\<not> is_argument t"
    by (auto simp: find_Some_iff)
  moreover assume "list_all is_argument (scanned ts)"
  ultimately show ?thesis by (simp add: list_all_iff)
next
  case (Inr r')
  then show ?thesis by simp
qed

section \<open>The loop of the command parameters\<close>

lemma update_fresh: "k \<notin> fst ` set al \<Longrightarrow> AList.update k v al = al @ [(k, v)]"
  by (induction al) auto

lemma get_property_update [simp]:
  "get_property (AList.update k v obj) k = Own v"
  by (simp add: get_property_def AList.update_conv')

lemma callback_eq:
  "getCommandParameters_callback N raw ps (name, p) =
     (case conversion_error N raw (name, p) of
        Some e \<Rightarrow> Inl e
      | None \<Rightarrow>
          (case resolved_value N raw (name, p) of
             None \<Rightarrow> Inr (ps, get_property ps name = Undefined)
           | Some v \<Rightarrow> Inr (AList.update name v ps, False)))"
  by (cases "type p"; cases "get_property raw name")
     (auto simp: getCommandParameters_callback_def conversion_error_def resolved_value_def
        split: option.splits nullable.splits)

lemma get_property_fresh:
  "name \<notin> fst ` set ps \<Longrightarrow> get_property ps name = Undefined \<longleftrightarrow> name \<notin> set Object_prototype"
  by (simp add: get_property_def map_of_eq_None_iff [THEN iffD2])

lemma filter_entries_eq:
  "distinct (map fst cfg) \<Longrightarrow> fst ` set ps \<inter> fst ` set cfg = {} \<Longrightarrow>
   filter_entries (getCommandParameters_callback N raw) cfg ps =
     (case List.map_filter (conversion_error N raw) cfg of
        e # es \<Rightarrow> Inl e
      | [] \<Rightarrow>
          Inr (ps @ List.map_filter (\<lambda>entry. map_option (Pair (fst entry)) (resolved_value N raw entry)) cfg,
               filter (\<lambda>entry. resolved_value N raw entry = None \<and> fst entry \<notin> set Object_prototype) cfg))"
proof (induction cfg arbitrary: ps)
  case Nil
  then show ?case by (simp add: List.map_filter_simps)
next
  case (Cons entry cfg)
  obtain name p where entry: "entry = (name, p)" by (cases entry)
  from Cons.prems have fresh: "name \<notin> fst ` set ps" and d: "distinct (map fst cfg)"
    and nin: "name \<notin> fst ` set cfg" and disj: "fst ` set ps \<inter> fst ` set cfg = {}"
    by (auto simp: entry)
  note undef = get_property_fresh [OF fresh]
  show ?case
  proof (cases "conversion_error N raw (name, p)")
    case (Some e)
    then show ?thesis by (simp add: entry callback_eq List.map_filter_simps)
  next
    case None
    show ?thesis
    proof (cases "resolved_value N raw (name, p)")
      case None
      with \<open>conversion_error N raw (name, p) = None\<close> Cons.IH [OF d disj] undef
      show ?thesis
        by (simp add: entry callback_eq List.map_filter_simps split: list.splits)
    next
      case (Some v)
      have "fst ` set (ps @ [(name, v)]) \<inter> fst ` set cfg = {}"
        using disj nin by auto
      from Cons.IH [OF d this] Some \<open>conversion_error N raw (name, p) = None\<close> fresh
      show ?thesis
        by (simp add: entry callback_eq List.map_filter_simps update_fresh split: list.splits)
    qed
  qed
qed

lemma getCommandParameters_eq:
  assumes "distinct (map fst cfg)"
  shows "getCommandParameters N cfg raw =
     (case List.map_filter (conversion_error N raw) cfg of
        e # es \<Rightarrow> Inl e
      | [] \<Rightarrow>
          if filter (\<lambda>entry. resolved_value N raw entry = None \<and> fst entry \<notin> set Object_prototype) cfg \<noteq> []
          then Inl (MissingArguments (map fst
                 (filter (\<lambda>entry. resolved_value N raw entry = None \<and> fst entry \<notin> set Object_prototype) cfg)))
          else if unknown_names cfg raw \<noteq> []
          then Inl (UnknownArguments (unknown_names cfg raw))
          else Inr (List.map_filter (\<lambda>entry. map_option (Pair (fst entry)) (resolved_value N raw entry)) cfg))"
  using filter_entries_eq [OF assms, of "[]" N raw]
  by (simp add: getCommandParameters_def unknown_names_def Let_def split: list.splits)

lemma map_filter_Nil_iff: "List.map_filter f xs = [] \<longleftrightarrow> (\<forall>x \<in> set xs. f x = None)"
  by (induction xs) (auto simp: List.map_filter_simps split: option.splits)

lemma map_of_map_filter:
  "distinct (map fst cfg) \<Longrightarrow> (name, p) \<in> set cfg \<Longrightarrow>
   map_of (List.map_filter (\<lambda>entry. map_option (Pair (fst entry)) (f entry)) cfg) name = f (name, p)"
proof (induction cfg)
  case Nil
  then show ?case by simp
next
  case (Cons entry cfg)
  have notin: "map_of (List.map_filter (\<lambda>entry. map_option (Pair (fst entry)) (f entry)) cfg) k = None"
    if "k \<notin> fst ` set cfg" for k
    using that by (induction cfg) (auto simp: List.map_filter_simps split: option.splits)
  show ?case
  proof (cases "entry = (name, p)")
    case True
    with Cons.prems notin [of name] show ?thesis
      by (cases "f (name, p)") (auto simp: List.map_filter_simps)
  next
    case False
    with Cons.prems have m: "(name, p) \<in> set cfg" and "fst entry \<noteq> name"
      by (auto simp: rev_image_eqI)
    with Cons.IH Cons.prems show ?thesis
      by (cases "f entry") (auto simp: List.map_filter_simps)
  qed
qed

lemma getCommandParameters_value:
  assumes "distinct (map fst cfg)" and "(name, p) \<in> set cfg"
    and "getCommandParameters N cfg raw = Inr r"
  shows "map_of r name = resolved_value N raw (name, p)"
proof -
  from assms(3) have "r = List.map_filter (\<lambda>entry. map_option (Pair (fst entry)) (resolved_value N raw entry)) cfg"
    by (auto simp: getCommandParameters_eq [OF assms(1)] split: list.splits if_splits)
  with map_of_map_filter [OF assms(1,2)] show ?thesis by simp
qed


lemma get_property_plain:
  "name \<notin> set Object_prototype \<Longrightarrow>
   get_property obj name = (case map_of obj name of Some v \<Rightarrow> Own v | None \<Rightarrow> Undefined)"
  by (simp add: get_property_def)

lemma no_value_iff:
  "conversion_error N raw entry = None \<Longrightarrow> fst entry \<notin> set Object_prototype \<Longrightarrow>
   resolved_value N raw entry = None \<longleftrightarrow> resolves_to_no_value raw entry"
  by (cases entry, cases "type (snd entry)")
     (auto simp: conversion_error_def resolved_value_def resolves_to_no_value_def
        get_property_plain split: option.splits nullable.splits if_splits)

lemma missing_filter:
  "plain_names cfg \<Longrightarrow> \<forall>entry \<in> set cfg. conversion_error N raw entry = None \<Longrightarrow>
   filter (\<lambda>entry. resolved_value N raw entry = None \<and> fst entry \<notin> set Object_prototype) cfg
     = filter (resolves_to_no_value raw) cfg"
  by (rule filter_cong) (auto simp: no_value_iff plain_names_def list_all_iff)


lemma conversion_error_kind: "conversion_error N raw entry = Some e \<Longrightarrow> is_conversion_error e"
  by (cases entry)
     (auto simp: conversion_error_def
        split: property.splits nullable.splits option.splits ParameterType.splits if_splits)

lemma first_conversion_error:
  assumes "List.map_filter (conversion_error N raw) cfg = e # es"
  shows "is_conversion_error e"
proof -
  from assms have "e \<in> set (List.map_filter (conversion_error N raw) cfg)" by simp
  then obtain entry where "conversion_error N raw entry = Some e"
    by (auto simp: List.map_filter_def)
  then show ?thesis by (rule conversion_error_kind)
qed

lemma getCommandParameters_conversion_error:
  assumes "distinct (map fst cfg)" and "entry \<in> set cfg"
    and "conversion_error N raw entry = Some e"
  shows "\<exists>e'. getCommandParameters N cfg raw = Inl e' \<and> is_conversion_error e'"
proof -
  from assms(2,3) have "List.map_filter (conversion_error N raw) cfg \<noteq> []"
    by (auto simp: map_filter_Nil_iff)
  then obtain e' es where es: "List.map_filter (conversion_error N raw) cfg = e' # es"
    by (cases "List.map_filter (conversion_error N raw) cfg") auto
  then have "is_conversion_error e'" by (rule first_conversion_error)
  with es show ?thesis by (simp add: getCommandParameters_eq [OF assms(1)])
qed

lemma boolean_tokens_disjoint:
  "s \<in> set [''false'', ''no'', ''n'', ''off'', ''0''] \<Longrightarrow> s \<notin> set [''true'', ''yes'', ''y'', ''on'', ''1'']"
  by auto

section \<open>The command name and the executable\<close>

lemma getCommandName_drop:
  "getCommandName argv =
     (case drop 2 argv of
        [] \<Rightarrow> Inr ''default''
      | a # rest \<Rightarrow>
          if COMMAND_NAME_REGEXP a then Inr a
          else if is_argument a then Inr ''default''
          else Inl NoCommandName)"
proof (cases "2 < length argv")
  case True
  then have "drop 2 argv = argv ! 2 # drop 3 argv"
    by (metis Cons_nth_drop_Suc eval_nat_numeral(3))
  with True show ?thesis by (simp add: getCommandName_def is_argument_def)
next
  case False
  then show ?thesis by (simp add: getCommandName_def)
qed

lemma getCommandLineArguments_drop:
  "getCommandLineArguments argv commandName =
     (if commandName = ''default'' then drop 2 argv else drop 1 (drop 2 argv))"
  by (simp add: getCommandLineArguments_def numeral_3_eq_3 numeral_2_eq_2)

lemma getCommandExecutable_cases:
  "getCommandExecutable N cfgs argv w =
     (case getCommandName argv of
        Inl e \<Rightarrow> (Inl e, w)
      | Inr commandName \<Rightarrow>
          (case get_property cfgs commandName of
             Undefined \<Rightarrow> (Inl (UnknownCommand commandName), w)
           | Inherited k \<Rightarrow>
               (case getRawArguments (getCommandLineArguments argv commandName) of
                  Inl e \<Rightarrow> (Inl e, w)
                | Inr rawArguments \<Rightarrow> (Inl CannotConvertUndefined, w))
           | Own c \<Rightarrow>
               (case getRawArguments (getCommandLineArguments argv commandName) of
                  Inl e \<Rightarrow> (Inl e, w)
                | Inr rawArguments \<Rightarrow>
                    (case getCommandParameters N (parameters c) rawArguments of
                       Inl e \<Rightarrow> (Inl e, w)
                     | Inr commandParameters \<Rightarrow> (Inr (Bind (command c) commandParameters), w)))))"
  by (simp add: getCommandExecutable_def getCommandConfig_def Let_def
        split: sum.splits property.splits)

lemma argument_name_not_dash: "is_alnum c \<Longrightarrow> c \<noteq> CHR ''-''"
proof
  assume "is_alnum c" and "c = CHR ''-''"
  then have "is_alnum (CHR ''-'')" by simp
  moreover have "\<not> is_alnum (CHR ''-'')" by code_simp
  ultimately show False by simp
qed

lemma equals_no_name_char: "\<not> is_name_char (CHR ''='')"
  by code_simp

lemma long_form_with_value:
  assumes "is_alnum c" and "list_all is_name_char cs" and "v \<noteq> []"
    and "\<not> list_ex is_line_terminator v"
  shows "matches (''--'' @ c # cs @ ''='' @ v) = Some (c # cs, Some v)"
proof -
  from assms(2) have all: "\<And>x. x \<in> set cs \<Longrightarrow> is_name_char x"
    by (simp add: list_all_iff)
  have "dropWhile is_name_char (cs @ CHR ''='' # v) = CHR ''='' # v"
    using all equals_no_name_char by (simp add: dropWhile_append2)
  moreover have "takeWhile is_name_char (cs @ CHR ''='' # v) = cs"
    using all equals_no_name_char by (simp add: takeWhile_append2)
  ultimately show ?thesis
    using assms(1,3,4) by (simp add: matches_def COMMAND_ARGUMENT_NAME_REGEXP_def)
qed

lemma long_form_flag:
  assumes "is_alnum c" and "list_all is_name_char cs"
  shows "matches (''--'' @ c # cs) = Some (c # cs, None)"
proof -
  from assms(2) have all: "\<And>x. x \<in> set cs \<Longrightarrow> is_name_char x"
    by (simp add: list_all_iff)
  then have dw: "dropWhile is_name_char cs = []" and tw: "takeWhile is_name_char cs = cs"
    by simp_all
  from assms(1) show ?thesis
    by (simp add: matches_def COMMAND_ARGUMENT_NAME_REGEXP_def dw tw)
qed

lemma short_form_flag:
  assumes "is_alnum c" and "list_all is_name_char cs"
  shows "matches (''-'' @ c # cs) = Some (c # cs, None)"
proof -
  from assms(1) have "c \<noteq> CHR ''-''" by (rule argument_name_not_dash)
  then have "COMMAND_ARGUMENT_NAME_REGEXP (CHR ''-'' # c # cs) = None"
    by (cases cs) (simp_all add: COMMAND_ARGUMENT_NAME_REGEXP_def)
  with assms show ?thesis
    by (simp add: matches_def COMMAND_ARGUMENT_SHORTHAND_REGEXP_def)
qed

section \<open>Properties\<close>

text \<open>
  C1. A boolean parameter whose raw argument is a flag without a value should resolve to
  \<open>true\<close>. The statement written for this case compares instead of assigning, so the
  parameter keeps what it had: its default if it declares one, and else the \<open>false\<close> that
  every boolean starts with. For \<open>--name=Ada --loud\<close> and the parameters \<open>name\<close> (a
  string) and \<open>loud\<close> (a boolean), \<open>loud\<close> resolves to \<open>false\<close>.
\<close>

theorem flag_without_value_keeps_seed:
  assumes "distinct (map fst cfg)" and "(name, p) \<in> set cfg" and "type p = TBoolean"
    and "map_of raw name = Some Null"
  shows "getCommandParameters_callback N raw ps (name, p) =
           Inr (AList.update name
                  (case defaultValue p of None \<Rightarrow> Val (BooleanValue False) | Some d \<Rightarrow> d) ps,
                False)
    \<and> (\<forall>r. getCommandParameters N cfg raw = Inr r \<longrightarrow>
          map_of r name =
            Some (case defaultValue p of None \<Rightarrow> Val (BooleanValue False) | Some d \<Rightarrow> d))"
proof -
  from assms(3,4) have rv: "resolved_value N raw (name, p) =
      Some (case defaultValue p of None \<Rightarrow> Val (BooleanValue False) | Some d \<Rightarrow> d)"
    by (simp add: resolved_value_def get_property_def split: option.splits)
  from assms(4) have ce: "conversion_error N raw (name, p) = None"
    by (simp add: conversion_error_def get_property_def)
  from rv ce have "getCommandParameters_callback N raw ps (name, p) =
           Inr (AList.update name
                  (case defaultValue p of None \<Rightarrow> Val (BooleanValue False) | Some d \<Rightarrow> d) ps,
                False)"
    by (simp add: callback_eq)
  moreover have "map_of r name =
      Some (case defaultValue p of None \<Rightarrow> Val (BooleanValue False) | Some d \<Rightarrow> d)"
    if "getCommandParameters N cfg raw = Inr r" for r
    using getCommandParameters_value [OF assms(1,2) that] rv by simp
  ultimately show ?thesis by blast
qed

theorem flag_without_value_keeps_seed_witness:
  "getRawArguments [''--name=Ada'', ''--loud''] = Inr [(''name'', Val ''Ada''), (''loud'', Null)]
   \<and> getCommandParameters decimal_Number
        [(''name'', a_parameter TString), (''loud'', a_parameter TBoolean)]
        [(''name'', Val ''Ada''), (''loud'', Null)]
      = Inr [(''name'', Val (StringValue ''Ada'')), (''loud'', Val (BooleanValue False))]
   \<and> map_of [(''name'', Val (StringValue ''Ada'')),
              (''loud'', Val (BooleanValue False) :: int CommandParameter nullable)] ''loud''
      = Some (Val (BooleanValue False))"
proof -
  let ?cfg = "[(''name'', a_parameter TString), (''loud'', a_parameter TBoolean)]"
  let ?raw = "[(''name'', Val ''Ada''), (''loud'', Null)]"
  have t: "getRawArguments [''--name=Ada'', ''--loud''] = Inr ?raw" by code_simp
  have e: "getCommandParameters decimal_Number ?cfg ?raw
      = Inr [(''name'', Val (StringValue ''Ada'')), (''loud'', Val (BooleanValue False))]"
    by code_simp
  have d: "distinct (map fst ?cfg)" by simp
  have m: "(''loud'', a_parameter TBoolean) \<in> set ?cfg" by simp
  have ty: "type (a_parameter TBoolean) = TBoolean" by (simp add: a_parameter_def)
  have r: "map_of ?raw ''loud'' = Some Null" by simp
  have dv: "defaultValue (a_parameter TBoolean) = None" by (simp add: a_parameter_def)
  from flag_without_value_keeps_seed [where N = decimal_Number and ps = "[]", OF d m ty r,
      THEN conjunct2, rule_format, OF e]
  have v: "map_of [(''name'', Val (StringValue ''Ada'')),
              (''loud'', Val (BooleanValue False) :: int CommandParameter nullable)] ''loud''
      = Some (Val (BooleanValue False))"
    by (simp only: dv option.case)
  from t e v show ?thesis by (intro conjI)
qed

text \<open>
  C2, as stated: with a missing parameter and an unknown key at once, one error lists both.
  It does not: for the parameter \<open>a\<close> (a number without default) and the raw arguments
  \<open>{b: "1"}\<close>, the error is "Missing arguments: a", and \<open>b\<close> is not in it. And a
  parameter named like a member of \<open>Object.prototype\<close> is not missing although nothing gives
  it a value: for the string parameter \<open>toString\<close> and the same raw arguments the error is
  "Unknown arguments: b".
\<close>

theorem unknown_names_left_out:
  "getCommandParameters decimal_Number [(''a'', a_parameter TNumber)] [(''b'', Val ''1'')]
     = Inl (MissingArguments [''a''])
   \<and> message (MissingArguments [''a'']) = ''Missing arguments: a''
   \<and> map fst (filter (resolves_to_no_value [(''b'', Val ''1'')]) [(''a'', a_parameter TNumber)])
     = [''a'']
   \<and> unknown_names [(''a'', a_parameter TNumber)] [(''b'', Val ''1'')] = [''b'']
   \<and> getCommandParameters decimal_Number [(''toString'', a_parameter TString)] [(''b'', Val ''1'')]
     = Inl (UnknownArguments [''b''])
   \<and> map fst (filter (resolves_to_no_value [(''b'', Val ''1'')]) [(''toString'', a_parameter TString)])
     = [''toString'']"
  by code_simp

text \<open>
  C2, amended. When no parameter is named like a member of \<open>Object.prototype\<close> and no raw
  string fails to convert: if a declared parameter resolves to no
  value, the error lists the missing names, all of them and in the order of the
  configuration, and no unknown key; the unknown keys are reported, in the order of
  \<open>Object.keys\<close>, only when no parameter is missing.
\<close>

theorem missing_reported_before_unknown:
  assumes "distinct (map fst cfg)" and "plain_names cfg"
    and "\<forall>entry \<in> set cfg. conversion_error N raw entry = None"
  shows "(filter (resolves_to_no_value raw) cfg \<noteq> [] \<longrightarrow>
            getCommandParameters N cfg raw
              = Inl (MissingArguments (map fst (filter (resolves_to_no_value raw) cfg))))
       \<and> (filter (resolves_to_no_value raw) cfg = [] \<and> unknown_names cfg raw \<noteq> [] \<longrightarrow>
            getCommandParameters N cfg raw = Inl (UnknownArguments (unknown_names cfg raw)))"
proof -
  from assms(3) have "List.map_filter (conversion_error N raw) cfg = []"
    by (simp add: map_filter_Nil_iff)
  then show ?thesis
    by (simp add: getCommandParameters_eq [OF assms(1)] missing_filter [OF assms(2,3)])
qed

theorem missing_reported_before_unknown_witness:
  "getCommandParameters decimal_Number
     [(''a'', a_parameter TNumber), (''b'', a_parameter TString), (''c'', a_parameter TNumber)]
     [(''z'', Val ''1''), (''b'', Val ''x''), (''c'', Null)]
     = Inl (MissingArguments [''a'', ''c''])
   \<and> getCommandParameters decimal_Number [(''a'', a_parameter TNumber)]
     [(''z'', Val ''1''), (''a'', Val ''2''), (''3'', Null)]
     = Inl (UnknownArguments [''3'', ''z''])"
proof -
  let ?cfg = "[(''a'', a_parameter TNumber), (''b'', a_parameter TString), (''c'', a_parameter TNumber)]"
  let ?raw = "[(''z'', Val ''1''), (''b'', Val ''x''), (''c'', Null)]"
  let ?cfg' = "[(''a'', a_parameter TNumber)]"
  let ?raw' = "[(''z'', Val ''1''), (''a'', Val ''2''), (''3'', Null)]"
  have d: "distinct (map fst ?cfg)" by simp
  have pl: "plain_names ?cfg" by code_simp
  have c: "\<forall>entry \<in> set ?cfg. conversion_error decimal_Number ?raw entry = None" by code_simp
  have m: "filter (resolves_to_no_value ?raw) ?cfg \<noteq> []" by code_simp
  have n: "map fst (filter (resolves_to_no_value ?raw) ?cfg) = [''a'', ''c'']" by code_simp
  have d': "distinct (map fst ?cfg')" by simp
  have pl': "plain_names ?cfg'" by code_simp
  have c': "\<forall>entry \<in> set ?cfg'. conversion_error decimal_Number ?raw' entry = None" by code_simp
  have m': "filter (resolves_to_no_value ?raw') ?cfg' = [] \<and> unknown_names ?cfg' ?raw' \<noteq> []"
    by code_simp
  have u': "unknown_names ?cfg' ?raw' = [''3'', ''z'']" by code_simp
  from missing_reported_before_unknown [OF d pl c, THEN conjunct1, rule_format, OF m]
  have 1: "getCommandParameters decimal_Number ?cfg ?raw = Inl (MissingArguments [''a'', ''c''])"
    by (simp only: n)
  from missing_reported_before_unknown [OF d' pl' c', THEN conjunct2, rule_format, OF m']
  have 2: "getCommandParameters decimal_Number ?cfg' ?raw' = Inl (UnknownArguments [''3'', ''z''])"
    by (simp only: u')
  from 1 2 show ?thesis by (intro conjI)
qed

text \<open>
  C3, as stated: the conversion to a boolean recognises exactly nine tokens. It recognises
  ten: the ten strings below differ from each other and each of them converts.
\<close>

theorem ten_tokens_recognised:
  "list_all recognised_boolean
     [''true'', ''yes'', ''y'', ''on'', ''1'', ''false'', ''no'', ''n'', ''off'', ''0'']
   \<and> distinct [''true'', ''yes'', ''y'', ''on'', ''1'', ''false'', ''no'', ''n'', ''off'', ''0'']
   \<and> length [''true'', ''yes'', ''y'', ''on'', ''1'', ''false'', ''no'', ''n'', ''off'', ''0''] = 10"
  by code_simp

text \<open>
  C3, amended: the conversion is case-insensitive and knows ten tokens. For a boolean
  parameter whose raw argument is a string, a lower-cased string among \<open>true\<close>, \<open>yes\<close>,
  \<open>y\<close>, \<open>on\<close>, \<open>1\<close> gives \<open>true\<close> and one among \<open>false\<close>, \<open>no\<close>, \<open>n\<close>, \<open>off\<close>,
  \<open>0\<close> gives \<open>false\<close>, in the callback and in every result of \<open>getCommandParameters\<close>;
  any other string makes the callback throw the error of the boolean conversion for this
  parameter and this string, and \<open>getCommandParameters\<close> end in a conversion error. The
  strings recognised are those whose lower case is one of the ten tokens.
\<close>

theorem boolean_conversion:
  assumes "distinct (map fst cfg)" and "(name, p) \<in> set cfg" and "type p = TBoolean"
    and "map_of raw name = Some (Val s)"
  shows "(toLowerCase s \<in> set [''true'', ''yes'', ''y'', ''on'', ''1''] \<longrightarrow>
            (\<exists>assigned. getCommandParameters_callback N raw ps (name, p) = Inr (assigned, False)
               \<and> map_of assigned name = Some (Val (BooleanValue True)))
            \<and> (\<forall>r. getCommandParameters N cfg raw = Inr r \<longrightarrow>
                  map_of r name = Some (Val (BooleanValue True))))
       \<and> (toLowerCase s \<in> set [''false'', ''no'', ''n'', ''off'', ''0''] \<longrightarrow>
            (\<exists>assigned. getCommandParameters_callback N raw ps (name, p) = Inr (assigned, False)
               \<and> map_of assigned name = Some (Val (BooleanValue False)))
            \<and> (\<forall>r. getCommandParameters N cfg raw = Inr r \<longrightarrow>
                  map_of r name = Some (Val (BooleanValue False))))
       \<and> (toLowerCase s \<notin> set [''true'', ''yes'', ''y'', ''on'', ''1'']
            \<and> toLowerCase s \<notin> set [''false'', ''no'', ''n'', ''off'', ''0''] \<longrightarrow>
            getCommandParameters_callback N raw ps (name, p) = Inl (InvalidBooleanValue name s)
            \<and> (\<exists>e. getCommandParameters N cfg raw = Inl e \<and> is_conversion_error e))
       \<and> (recognised_boolean s \<longleftrightarrow>
            toLowerCase s \<in> set [''true'', ''yes'', ''y'', ''on'', ''1'']
            \<or> toLowerCase s \<in> set [''false'', ''no'', ''n'', ''off'', ''0''])"
proof -
  let ?T = "toLowerCase s \<in> set [''true'', ''yes'', ''y'', ''on'', ''1'']"
  let ?F = "toLowerCase s \<in> set [''false'', ''no'', ''n'', ''off'', ''0'']"
  have rv: "resolved_value N raw (name, p) = Some (Val (BooleanValue ?T))"
    using assms(3,4) by (simp add: resolved_value_def get_property_def)
  have ce: "conversion_error N raw (name, p) =
      (if ?T \<or> ?F then None else Some (InvalidBooleanValue name s))"
    using assms(3,4) by (simp add: conversion_error_def get_property_def)
  have cb: "getCommandParameters_callback N raw ps (name, p) =
      (if ?T \<or> ?F then Inr (AList.update name (Val (BooleanValue ?T)) ps, False)
       else Inl (InvalidBooleanValue name s))"
    by (simp only: callback_eq rv ce option.case split: if_splits) simp
  have val: "map_of r name = Some (Val (BooleanValue ?T))"
    if "getCommandParameters N cfg raw = Inr r" for r
    using getCommandParameters_value [OF assms(1,2) that] rv by simp
  have FT: "?F \<Longrightarrow> \<not> ?T" by (rule boolean_tokens_disjoint)
  have 1: "?T \<longrightarrow>
            (\<exists>assigned. getCommandParameters_callback N raw ps (name, p) = Inr (assigned, False)
               \<and> map_of assigned name = Some (Val (BooleanValue True)))
            \<and> (\<forall>r. getCommandParameters N cfg raw = Inr r \<longrightarrow>
                  map_of r name = Some (Val (BooleanValue True)))"
    using val by (simp add: cb AList.update_conv')
  have 2: "?F \<longrightarrow>
            (\<exists>assigned. getCommandParameters_callback N raw ps (name, p) = Inr (assigned, False)
               \<and> map_of assigned name = Some (Val (BooleanValue False)))
            \<and> (\<forall>r. getCommandParameters N cfg raw = Inr r \<longrightarrow>
                  map_of r name = Some (Val (BooleanValue False)))"
  proof
    assume f: ?F
    then have nt: "\<not> ?T" by (rule FT)
    from f nt val show "(\<exists>assigned. getCommandParameters_callback N raw ps (name, p) = Inr (assigned, False)
               \<and> map_of assigned name = Some (Val (BooleanValue False)))
            \<and> (\<forall>r. getCommandParameters N cfg raw = Inr r \<longrightarrow>
                  map_of r name = Some (Val (BooleanValue False)))"
      by (simp add: cb AList.update_conv')
  qed
  have 3: "\<not> ?T \<and> \<not> ?F \<longrightarrow>
            getCommandParameters_callback N raw ps (name, p) = Inl (InvalidBooleanValue name s)
            \<and> (\<exists>e. getCommandParameters N cfg raw = Inl e \<and> is_conversion_error e)"
  proof
    assume n: "\<not> ?T \<and> \<not> ?F"
    then have "conversion_error N raw (name, p) = Some (InvalidBooleanValue name s)"
      by (simp only: ce) simp
    from getCommandParameters_conversion_error [OF assms(1,2) this] n
    show "getCommandParameters_callback N raw ps (name, p) = Inl (InvalidBooleanValue name s)
            \<and> (\<exists>e. getCommandParameters N cfg raw = Inl e \<and> is_conversion_error e)"
      by (simp only: cb) simp
  qed
  have 4: "recognised_boolean s \<longleftrightarrow> ?T \<or> ?F"
    by (simp add: recognised_boolean_def callback_eq conversion_error_def resolved_value_def
          get_property_def a_parameter_def split: option.splits)
  from 1 2 3 4 show ?thesis by (intro conjI)
qed

theorem boolean_conversion_witness:
  "(\<exists>assigned.
      getCommandParameters_callback decimal_Number [(''flag'', Val ''YES'')] []
        (''flag'', a_parameter TBoolean) = Inr (assigned, False)
      \<and> map_of assigned ''flag'' = Some (Val (BooleanValue True)))
   \<and> getCommandParameters_callback decimal_Number [(''flag'', Val ''maybe'')] []
        (''flag'', a_parameter TBoolean) = Inl (InvalidBooleanValue ''flag'' ''maybe'')
   \<and> (\<exists>e. getCommandParameters decimal_Number [(''flag'', a_parameter TBoolean)]
              [(''flag'', Val ''maybe'')] = Inl e \<and> is_conversion_error e)"
proof -
  let ?cfg = "[(''flag'', a_parameter TBoolean)]"
  have d: "distinct (map fst ?cfg)" by simp
  have m: "(''flag'', a_parameter TBoolean) \<in> set ?cfg" by simp
  have ty: "type (a_parameter TBoolean) = TBoolean" by (simp add: a_parameter_def)
  have r1: "map_of [(''flag'', Val ''YES'')] ''flag'' = Some (Val ''YES'')" by simp
  have r2: "map_of [(''flag'', Val ''maybe'')] ''flag'' = Some (Val ''maybe'')" by simp
  have t: "toLowerCase ''YES'' \<in> set [''true'', ''yes'', ''y'', ''on'', ''1'']" by code_simp
  have n: "toLowerCase ''maybe'' \<notin> set [''true'', ''yes'', ''y'', ''on'', ''1'']
      \<and> toLowerCase ''maybe'' \<notin> set [''false'', ''no'', ''n'', ''off'', ''0'']" by code_simp
  note yes = boolean_conversion [where N = decimal_Number and ps = "[]", OF d m ty r1,
      THEN conjunct1, rule_format, OF t, THEN conjunct1]
  note maybe = boolean_conversion [where N = decimal_Number and ps = "[]", OF d m ty r2,
      THEN conjunct2, THEN conjunct2, THEN conjunct1, rule_format, OF n]
  from yes maybe show ?thesis by blast
qed

text \<open>
  C4. A first argument that matches the command name expression should be taken as the
  command name, with the arguments starting after it. For the name \<open>default\<close> written out,
  the arguments start at the name itself, which is then no valid argument.
\<close>

theorem explicit_default_keeps_its_name:
  assumes "2 < length argv" and "argv ! 2 = ''default''"
  shows "getCommandName argv = Inr ''default''
    \<and> getCommandLineArguments argv ''default'' = ''default'' # drop 3 argv
    \<and> getRawArguments (getCommandLineArguments argv ''default'') = Inl (InvalidArgument ''default'')"
proof -
  have n: "COMMAND_NAME_REGEXP ''default''" by code_simp
  have m: "matches ''default'' = None" by code_simp
  from assms have d: "drop 2 argv = ''default'' # drop 3 argv"
    by (metis Cons_nth_drop_Suc eval_nat_numeral(3))
  from assms n have "getCommandName argv = Inr ''default''"
    by (simp add: getCommandName_def)
  moreover from d have "getCommandLineArguments argv ''default'' = ''default'' # drop 3 argv"
    by (simp add: getCommandLineArguments_def)
  moreover from m have "getRawArguments (''default'' # drop 3 argv) = Inl (InvalidArgument ''default'')"
    by (simp add: getRawArguments_tokens_from tokens_from_Cons)
  ultimately show ?thesis by simp
qed

theorem explicit_default_keeps_its_name_witness:
  "getCommandName [''node'', ''bin'', ''default'', ''--count=3''] = Inr ''default''
   \<and> getCommandLineArguments [''node'', ''bin'', ''default'', ''--count=3''] ''default''
       = [''default'', ''--count=3'']
   \<and> getRawArguments [''default'', ''--count=3''] = Inl (InvalidArgument ''default'')"
proof -
  have h1: "2 < length [''node'', ''bin'', ''default'', ''--count=3'']" by simp
  have h2: "[''node'', ''bin'', ''default'', ''--count=3''] ! 2 = ''default''" by simp
  note t = explicit_default_keeps_its_name [OF h1 h2]
  from t have a: "getCommandName [''node'', ''bin'', ''default'', ''--count=3''] = Inr ''default''"
    by (rule conjunct1)
  from t have b: "getCommandLineArguments [''node'', ''bin'', ''default'', ''--count=3''] ''default''
       = [''default'', ''--count=3'']"
    by (simp add: numeral_3_eq_3)
  from t have "getRawArguments (getCommandLineArguments [''node'', ''bin'', ''default'', ''--count=3''] ''default'')
       = Inl (InvalidArgument ''default'')"
    by (rule conjunct2 [THEN conjunct2])
  with b have c: "getRawArguments [''default'', ''--count=3''] = Inl (InvalidArgument ''default'')"
    by simp
  from a b c show ?thesis by (intro conjI)
qed

text \<open>
  C5. \<open>getRawArguments\<close> is the loop \<open>tokens_from\<close> over all tokens, started with no raw
  argument, and the loop reads the tokens as follows. A token that matches neither argument
  expression ends it with the error for this token. A token \<open>--name=value\<close> records the value
  as it is written. A token \<open>--name\<close> or \<open>-x\<close> in front of a token that matches neither
  expression records that token as its value, and the loop goes on behind it: the token taken
  is never matched and never reported. Otherwise the token records \<open>null\<close>.
\<close>

theorem getRawArguments_reads_tokens:
  "getRawArguments ts = tokens_from ts []
   \<and> tokens_from [] result = Inr result
   \<and> tokens_from (t # rest) result =
       (case matches t of
          None \<Rightarrow> Inl (InvalidArgument t)
        | Some (name, Some v) \<Rightarrow> tokens_from rest (AList.update name (Val v) result)
        | Some (name, None) \<Rightarrow>
            (case rest of
               [] \<Rightarrow> Inr (AList.update name Null result)
             | s # rest' \<Rightarrow>
                 if \<not> is_argument s then tokens_from rest' (AList.update name (Val s) result)
                 else tokens_from rest (AList.update name Null result)))
   \<and> (is_alnum c \<and> list_all is_name_char cs \<longrightarrow>
         matches (''--'' @ c # cs) = Some (c # cs, None)
         \<and> matches (''-'' @ c # cs) = Some (c # cs, None)
         \<and> (value \<noteq> [] \<and> \<not> list_ex is_line_terminator value \<longrightarrow>
              matches (''--'' @ c # cs @ ''='' @ value) = Some (c # cs, Some value)))"
  using getRawArguments_tokens_from [of ts] tokens_from_Cons [of t rest result]
    long_form_flag [of c cs] short_form_flag [of c cs] long_form_with_value [of c cs "value"]
  by simp

theorem getRawArguments_reads_tokens_witness:
  "getRawArguments [''--n=v'', ''--a'', ''garbage'', ''-x'', ''--b'', ''--c'']
     = Inr [(''n'', Val ''v''), (''a'', Val ''garbage''), (''x'', Null), (''b'', Null), (''c'', Null)]
   \<and> matches ''--n=v'' = Some (''n'', Some ''v'')
   \<and> matches ''--a'' = Some (''a'', None)
   \<and> matches ''-x'' = Some (''x'', None)"
proof -
  note t = getRawArguments_reads_tokens
    [of "[''--n=v'', ''--a'', ''garbage'', ''-x'', ''--b'', ''--c'']" "[]" "[]" "[]" "CHR ''n''" "[]" "''v''"]
  note a = getRawArguments_reads_tokens [of "[]" "[]" "[]" "[]" "CHR ''a''" "[]" "''v''"]
  note x = getRawArguments_reads_tokens [of "[]" "[]" "[]" "[]" "CHR ''x''" "[]" "''v''"]
  have e: "tokens_from [''--n=v'', ''--a'', ''garbage'', ''-x'', ''--b'', ''--c''] []
      = Inr [(''n'', Val ''v''), (''a'', Val ''garbage''), (''x'', Null), (''b'', Null), (''c'', Null)]"
    by code_simp
  have n: "is_alnum (CHR ''n'') \<and> list_all is_name_char []" by code_simp
  have n': "is_alnum (CHR ''a'') \<and> list_all is_name_char []" by code_simp
  have n'': "is_alnum (CHR ''x'') \<and> list_all is_name_char []" by code_simp
  have v: "''v'' \<noteq> [] \<and> \<not> list_ex is_line_terminator ''v''" by code_simp
  from t e have 1: "getRawArguments [''--n=v'', ''--a'', ''garbage'', ''-x'', ''--b'', ''--c'']
     = Inr [(''n'', Val ''v''), (''a'', Val ''garbage''), (''x'', Null), (''b'', Null), (''c'', Null)]"
    by simp
  from t [THEN conjunct2, THEN conjunct2, THEN conjunct2, rule_format, OF n,
      THEN conjunct2, THEN conjunct2, rule_format, OF v]
  have 2: "matches ''--n=v'' = Some (''n'', Some ''v'')" by simp
  from a [THEN conjunct2, THEN conjunct2, THEN conjunct2, rule_format, OF n', THEN conjunct1]
  have 3: "matches ''--a'' = Some (''a'', None)" by simp
  from x [THEN conjunct2, THEN conjunct2, THEN conjunct2, rule_format, OF n'',
      THEN conjunct2, THEN conjunct1]
  have 4: "matches ''-x'' = Some (''x'', None)" by simp
  from 1 2 3 4 show ?thesis by (intro conjI)
qed

text \<open>
  C6. \<open>getRawArguments\<close> throws exactly when one of the tokens that are not consumed as a
  value matches neither argument expression, and the error is "Invalid argument" for the
  first such token and for nothing else.
\<close>

theorem malformed_token_fails_first:
  "getRawArguments ts = Inl e \<longleftrightarrow>
     (\<exists>t. find (\<lambda>t. \<not> is_argument t) (scanned ts) = Some t \<and> e = InvalidArgument t)"
  by (simp only: getRawArguments_tokens_from tokens_from_error)

theorem malformed_token_fails_first_witness:
  "find (\<lambda>t. \<not> is_argument t) (scanned [''--a'', ''x'', ''y'', ''--b'', ''z z'']) = Some ''y''
   \<and> getRawArguments [''--a'', ''x'', ''y'', ''--b'', ''z z''] = Inl (InvalidArgument ''y'')"
proof -
  have f: "find (\<lambda>t. \<not> is_argument t) (scanned [''--a'', ''x'', ''y'', ''--b'', ''z z'']) = Some ''y''"
    by code_simp
  then have "\<exists>t. find (\<lambda>t. \<not> is_argument t) (scanned [''--a'', ''x'', ''y'', ''--b'', ''z z'']) = Some t
      \<and> InvalidArgument ''y'' = InvalidArgument t"
    by simp
  then have "getRawArguments [''--a'', ''x'', ''y'', ''--b'', ''z z''] = Inl (InvalidArgument ''y'')"
    by (rule malformed_token_fails_first [THEN iffD2])
  with f show ?thesis by (intro conjI)
qed




text \<open>
  C8. \<open>getCommandExecutable\<close> never calls a command handling function: whatever the
  registry, its functions and the argument vector are, it leaves the world as it finds it,
  when it ends in an error of the command name, of the registry, of the raw arguments or of
  the parameters as well as when it returns. In the first case \<open>run\<close> logs the message and
  the usage notes and exits with status 1, in the same world. In the second case the
  executable is the function of the command bound to the resolved parameters, and the
  function acts only when \<open>run\<close> calls the executable: the result and the world of \<open>run\<close>
  are those of the function applied to the parameters.
\<close>

theorem handler_not_invoked_by_dispatch:
  "snd (getCommandExecutable N cfgs argv w) = w
   \<and> (\<forall>e. fst (getCommandExecutable N cfgs argv w) = Inl e \<longrightarrow>
          run N cfgs argv w = (Exits 1 [Text (message e), Text getUsageNotes], w))
   \<and> (\<forall>f commandParameters.
          fst (getCommandExecutable N cfgs argv w) = Inr (Bind f commandParameters) \<longrightarrow>
          (\<exists>commandName c rawArguments.
             getCommandName argv = Inr commandName
             \<and> map_of cfgs commandName = Some c
             \<and> getRawArguments (getCommandLineArguments argv commandName) = Inr rawArguments
             \<and> getCommandParameters N (parameters c) rawArguments = Inr commandParameters
             \<and> f = command c)
          \<and> run N cfgs argv w =
              (case f commandParameters w of
                 (Inl x, w') \<Rightarrow> (Exits 1 [Thrown x], w')
               | (Inr v, w') \<Rightarrow> (Returns v, w')))"
proof -
  have world: "snd (getCommandExecutable N cfgs argv w) = w"
    by (simp add: getCommandExecutable_cases split: sum.splits property.splits)
  then have pair: "getCommandExecutable N cfgs argv w = (fst (getCommandExecutable N cfgs argv w), w)"
    by (metis prod.collapse)
  have err: "run N cfgs argv w = (Exits 1 [Text (message e), Text getUsageNotes], w)"
    if "fst (getCommandExecutable N cfgs argv w) = Inl e" for e
    using that pair by (simp add: run_def split: prod.splits)
  have ok: "(\<exists>commandName c rawArguments.
             getCommandName argv = Inr commandName
             \<and> map_of cfgs commandName = Some c
             \<and> getRawArguments (getCommandLineArguments argv commandName) = Inr rawArguments
             \<and> getCommandParameters N (parameters c) rawArguments = Inr commandParameters
             \<and> f = command c)
          \<and> run N cfgs argv w =
              (case f commandParameters w of
                 (Inl x, w') \<Rightarrow> (Exits 1 [Thrown x], w')
               | (Inr v, w') \<Rightarrow> (Returns v, w'))"
    if h: "fst (getCommandExecutable N cfgs argv w) = Inr (Bind f commandParameters)"
    for f commandParameters
  proof -
    from h obtain commandName c rawArguments where
      "getCommandName argv = Inr commandName" and "get_property cfgs commandName = Own c"
      and "getRawArguments (getCommandLineArguments argv commandName) = Inr rawArguments"
      and "getCommandParameters N (parameters c) rawArguments = Inr commandParameters"
      and "f = command c"
      by (auto simp: getCommandExecutable_cases split: sum.splits property.splits)
    moreover from this(2) have "map_of cfgs commandName = Some c"
      by (auto simp: get_property_def split: option.splits if_splits)
    moreover from h pair have "run N cfgs argv w =
              (case f commandParameters w of
                 (Inl x, w') \<Rightarrow> (Exits 1 [Thrown x], w')
               | (Inr v, w') \<Rightarrow> (Returns v, w'))"
      by (simp add: run_def split: prod.splits sum.splits)
    ultimately show ?thesis by blast
  qed
  from world err ok show ?thesis by blast
qed

theorem handler_not_invoked_by_dispatch_witness:
  "getCommandExecutable decimal_Number a_registry [''node'', ''bin'', ''greet'', ''--loud''] [''start'']
     = (Inl (MissingArguments [''name'']), [''start''])
   \<and> run decimal_Number a_registry [''node'', ''bin'', ''greet'', ''--loud''] [''start'']
     = (Exits 1 [Text ''Missing arguments: name'', Text []], [''start''])
   \<and> snd (getCommandExecutable decimal_Number a_registry
        [''node'', ''bin'', ''greet'', ''--name=Ada''] [''start'']) = [''start'']
   \<and> run decimal_Number a_registry [''node'', ''bin'', ''greet'', ''--name=Ada''] [''start'']
     = (Returns 2, [''start'', ''greet''])"
proof -
  let ?greet = "[(''name'', a_parameter TString), (''loud'', a_parameter TBoolean)]"
  let ?f = "\<lambda>commandParameters w.
      (Inr (length (commandParameters :: int CommandParameters)) :: unit + nat, w @ [''greet''])"
  have c: "get_property a_registry ''greet'' =
      Own \<lparr>parameters = ?greet, command = ?f, commandDescription = None\<rparr>"
    by (simp add: a_registry_def get_property_def)
  have n1: "getCommandName [''node'', ''bin'', ''greet'', ''--loud''] = Inr ''greet''" by code_simp
  have a1: "getCommandLineArguments [''node'', ''bin'', ''greet'', ''--loud''] ''greet'' = [''--loud'']"
    by code_simp
  have r1: "getRawArguments [''--loud''] = Inr [(''loud'', Null)]" by code_simp
  have p1: "getCommandParameters decimal_Number ?greet [(''loud'', Null)]
      = Inl (MissingArguments [''name''])" by code_simp
  have e1: "fst (getCommandExecutable decimal_Number a_registry
      [''node'', ''bin'', ''greet'', ''--loud''] [''start'']) = Inl (MissingArguments [''name''])"
    by (simp add: getCommandExecutable_cases n1 a1 r1 p1 c)
  have n2: "getCommandName [''node'', ''bin'', ''greet'', ''--name=Ada''] = Inr ''greet''" by code_simp
  have a2: "getCommandLineArguments [''node'', ''bin'', ''greet'', ''--name=Ada''] ''greet''
      = [''--name=Ada'']" by code_simp
  have r2: "getRawArguments [''--name=Ada''] = Inr [(''name'', Val ''Ada'')]" by code_simp
  have p2: "getCommandParameters decimal_Number ?greet [(''name'', Val ''Ada'')]
      = Inr [(''name'', Val (StringValue ''Ada'')), (''loud'', Val (BooleanValue False))]"
    by code_simp
  have e2: "fst (getCommandExecutable decimal_Number a_registry
      [''node'', ''bin'', ''greet'', ''--name=Ada''] [''start''])
      = Inr (Bind ?f [(''name'', Val (StringValue ''Ada'')), (''loud'', Val (BooleanValue False))])"
    by (simp add: getCommandExecutable_cases n2 a2 r2 p2 c)
  note t1 = handler_not_invoked_by_dispatch
    [of decimal_Number a_registry "[''node'', ''bin'', ''greet'', ''--loud'']" "[''start'']"]
  note t2 = handler_not_invoked_by_dispatch
    [of decimal_Number a_registry "[''node'', ''bin'', ''greet'', ''--name=Ada'']" "[''start'']"]
  from t1 [THEN conjunct1] e1
  have 1: "getCommandExecutable decimal_Number a_registry [''node'', ''bin'', ''greet'', ''--loud'']
      [''start''] = (Inl (MissingArguments [''name'']), [''start''])"
    by (metis prod.collapse)
  from t1 [THEN conjunct2, THEN conjunct1, rule_format, OF e1]
  have 2: "run decimal_Number a_registry [''node'', ''bin'', ''greet'', ''--loud''] [''start'']
     = (Exits 1 [Text ''Missing arguments: name'', Text []], [''start''])"
    by (simp add: getUsageNotes_def)
  note 3 = t2 [THEN conjunct1]
  from t2 [THEN conjunct2, THEN conjunct2, rule_format, OF e2, THEN conjunct2]
  have 4: "run decimal_Number a_registry [''node'', ''bin'', ''greet'', ''--name=Ada''] [''start'']
     = (Returns 2, [''start'', ''greet''])"
    by simp
  from 1 2 3 4 show ?thesis by (intro conjI)
qed

text \<open>
  C9. Two argument vectors that agree from index 2 on give the same command name, the same
  command line arguments, the same result of \<open>getCommandExecutable\<close> (the same error or the
  same executable) and the same result of \<open>run\<close>, for every registry.
\<close>

theorem leading_slots_not_inspected:
  assumes "drop 2 argv = drop 2 argv'"
  shows "getCommandName argv = getCommandName argv'
    \<and> getCommandLineArguments argv commandName = getCommandLineArguments argv' commandName
    \<and> getCommandExecutable N cfgs argv = getCommandExecutable N cfgs argv'
    \<and> run N cfgs argv = run N cfgs argv'"
proof -
  from assms have n: "getCommandName argv = getCommandName argv'"
    by (simp add: getCommandName_drop)
  from assms have a: "getCommandLineArguments argv c = getCommandLineArguments argv' c" for c
    by (simp add: getCommandLineArguments_drop)
  from n a have e: "getCommandExecutable N cfgs argv = getCommandExecutable N cfgs argv'"
    by (intro ext) (simp only: getCommandExecutable_cases)
  from e have "run N cfgs argv = run N cfgs argv'"
    by (intro ext) (simp add: run_def)
  with n a e show ?thesis by simp
qed

theorem leading_slots_not_inspected_witness:
  "getCommandName [''node'', ''bin'', ''greet'', ''--name=Ada'']
     = getCommandName [''deno'', '''', ''greet'', ''--name=Ada'']
   \<and> getCommandExecutable decimal_Number a_registry [''node'', ''bin'', ''greet'', ''--name=Ada'']
     = getCommandExecutable decimal_Number a_registry [''deno'', '''', ''greet'', ''--name=Ada'']
   \<and> run decimal_Number a_registry [''node'', ''bin'', ''greet'', ''--name=Ada'']
     = run decimal_Number a_registry [''deno'', '''', ''greet'', ''--name=Ada'']"
proof -
  have h: "drop 2 [''node'', ''bin'', ''greet'', ''--name=Ada'']
      = drop 2 [''deno'', '''', ''greet'', ''--name=Ada'']"
    by simp
  from leading_slots_not_inspected [OF h, of "[]" decimal_Number a_registry]
  show ?thesis by blast
qed

text \<open>
  C10. When several tokens bind one name, the raw arguments hold the binding of the last of
  them, and the repetition raises no error: if every token that is not consumed is an
  argument, \<open>getRawArguments\<close> returns, and a name is mapped to the binding after which
  no other binding of the name follows.
\<close>

theorem last_binding_wins:
  assumes "list_all is_argument (scanned ts)"
    and "bindings ts = earlier @ (name, v) # later"
    and "name \<notin> fst ` set later"
  shows "\<exists>rawArguments. getRawArguments ts = Inr rawArguments \<and> map_of rawArguments name = Some v"
proof -
  from assms(1) obtain r where r: "tokens_from ts [] = Inr r"
    using tokens_from_succeeds by blast
  then have "map_of r = map_of (rev (bindings ts))"
    using tokens_from_bindings [OF r] by (simp add: map_of_foldl_update)
  with assms(2) last_binding [OF assms(3), of earlier v] have "map_of r name = Some v"
    by simp
  with r show ?thesis by (simp add: getRawArguments_tokens_from)
qed

theorem last_binding_wins_witness:
  "(\<exists>rawArguments. getRawArguments [''--a=1'', ''--b'', ''--a=2''] = Inr rawArguments
      \<and> map_of rawArguments ''a'' = Some (Val ''2''))
   \<and> (\<exists>rawArguments. getRawArguments [''--a=1'', ''--a''] = Inr rawArguments
      \<and> map_of rawArguments ''a'' = Some Null)"
proof -
  have s1: "list_all is_argument (scanned [''--a=1'', ''--b'', ''--a=2''])" by code_simp
  have b1: "bindings [''--a=1'', ''--b'', ''--a=2'']
      = [(''a'', Val ''1''), (''b'', Null)] @ (''a'', Val ''2'') # []" by code_simp
  have n: "''a'' \<notin> fst ` set ([] :: (string \<times> string nullable) list)" by simp
  have s2: "list_all is_argument (scanned [''--a=1'', ''--a''])" by code_simp
  have b2: "bindings [''--a=1'', ''--a''] = [(''a'', Val ''1'')] @ (''a'', Null) # []" by code_simp
  from last_binding_wins [OF s1 b1 n] last_binding_wins [OF s2 b2 n] show ?thesis
    by (intro conjI)
qed

end
